theory Spec2Isabelle
  imports Main "HOL-Library.Word"
begin

section \<open>Values of the Python runtime\<close>

text \<open>
  The widget is one Python file, \<^verbatim>\<open>main.py\<close>: a \<^verbatim>\<open>GenshinApp\<close> window that reads
  \<^verbatim>\<open>settings.ini\<close>, polls an account client and rebuilds three rows of labels.
  Exceptions are values: the constructor is the class and carries the argument the
  exception was raised for (the key, the text that did not convert, the name of the Qt
  call). The text \<^verbatim>\<open>str(e)\<close> is made by the runtime and is not rebuilt here: it is the
  function \<open>exn_text\<close> of the environment.
\<close>

datatype exn =
    KeyError string
  | ValueError string
  | NoSectionError string
  | InterpolationError string
  | AttributeError string
  | TypeError string
  | OverflowError string
  | OSError string
  | SystemExit string
  | GenshinException string
  | OtherException string

text \<open>
  A computation of the program either returns, or leaves through
  \<^verbatim>\<open>show_warning(msg); sys.exit()\<close> (\<open>Exit msg\<close>), or raises.
\<close>

datatype 'a result = Ok 'a | Exit string | Raise exn

fun bind :: "'a result \<Rightarrow> ('a \<Rightarrow> 'b result) \<Rightarrow> 'b result" where
  "bind (Ok x) f = f x"
| "bind (Exit m) f = Exit m"
| "bind (Raise e) f = Raise e"

text \<open>
  What a \<^verbatim>\<open>try\<close> block sees of a computation: its value or the exception, \<^verbatim>\<open>sys.exit\<close>
  being the exception \<^verbatim>\<open>SystemExit\<close>, which \<^verbatim>\<open>except Exception\<close> does not catch.
\<close>

fun caught :: "'a result \<Rightarrow> exn + 'a" where
  "caught (Ok x) = Inr x"
| "caught (Raise e) = Inl e"
| "caught (Exit m) = Inl (SystemExit m)"

fun is_exception :: "exn \<Rightarrow> bool" where
  "is_exception (SystemExit m) = False"
| "is_exception e = True"

subsection \<open>The settings store and the environment\<close>

text \<open>
  \<^verbatim>\<open>configparser.ConfigParser\<close>: sections by name, each the list of its options in
  the order of the file, with the values as stored. The file \<^verbatim>\<open>settings.ini\<close> is held by
  its content, the sections and options a \<^verbatim>\<open>read\<close> of it yields; a missing file reads as
  no section at all.
\<close>

type_synonym section_proxy = "(string \<times> string) list"
type_synonym config = "string \<rightharpoonup> section_proxy"

text \<open>
  What the program takes from outside: the settings file and whether it can be written,
  the family of the font file when it loads, and the runtime. Of the runtime: which
  strings \<^verbatim>\<open>float\<close> accepts; what the interpolation of \<^verbatim>\<open>configparser\<close> makes of a stored
  value that holds a \<^verbatim>\<open>%\<close> (given the options of its section and the option name); what
  \<^verbatim>\<open>int\<close> makes of a string with characters outside ASCII; the limit on the digits of
  an integer conversion (\<^verbatim>\<open>sys.get_int_max_str_digits()\<close>, 4300 by default, 0 for none);
  and the text of an exception.
\<close>

record env =
  settings_file :: "config option"
  settings_writable :: bool
  font_family :: "string option"
  float_ok :: "string \<Rightarrow> bool"
  interpolate :: "section_proxy \<Rightarrow> string \<Rightarrow> string \<Rightarrow> string result"
  int_unicode :: "string \<Rightarrow> int result"
  max_str_digits :: nat
  exn_text :: "exn \<Rightarrow> string"

subsection \<open>\<^verbatim>\<open>str\<close> of an integer and of a boolean\<close>

definition digit_char :: "nat \<Rightarrow> char" where
  "digit_char d = ''0123456789'' ! d"

function str_nat :: "nat \<Rightarrow> string" where
  "str_nat n = (if n < 10 then [digit_char n] else str_nat (n div 10) @ [digit_char (n mod 10)])"
  by pat_completeness auto
termination
  by (relation "measure (\<lambda>n. n)") auto

declare str_nat.simps [simp del]

definition str_int :: "int \<Rightarrow> string" where
  "str_int i = (if i < 0 then CHR ''-'' # str_nat (nat (- i)) else str_nat (nat i))"

definition str_bool :: "bool \<Rightarrow> string" where
  "str_bool b = (if b then ''True'' else ''False'')"

text \<open>
  The limit on integer conversions: a conversion between a string and an integer of
  more than 640 digits raises \<^verbatim>\<open>ValueError\<close> when the digits exceed the limit, which is
  never set below 640.
\<close>

definition over_limit :: "env \<Rightarrow> nat \<Rightarrow> bool" where
  "over_limit env digits \<longleftrightarrow> 0 < max_str_digits env \<and> max 640 (max_str_digits env) < digits"

definition py_str :: "env \<Rightarrow> int \<Rightarrow> string result" where
  "py_str env i =
     (if over_limit env (length (str_nat (nat \<bar>i\<bar>))) then Raise (ValueError (str_int i))
      else Ok (str_int i))"

subsection \<open>\<^verbatim>\<open>int(s)\<close>\<close>

text \<open>
  \<^verbatim>\<open>int(s)\<close> in base 10 on an ASCII string: surrounding whitespace is dropped, one sign
  is allowed, then a digit, then digits with single underscores between them, and the
  digits are counted against the limit. Anything else raises \<^verbatim>\<open>ValueError\<close>. A string
  with a character outside ASCII is left to the runtime.
\<close>

definition is_ascii :: "char \<Rightarrow> bool" where
  "is_ascii c \<longleftrightarrow> (of_char c :: nat) < 128"

definition is_space :: "char \<Rightarrow> bool" where
  "is_space c \<longleftrightarrow> c \<in> set [CHR 0x20, CHR 0x09, CHR 0x0A, CHR 0x0B, CHR 0x0C, CHR 0x0D]"

definition strip :: "string \<Rightarrow> string" where
  "strip s = rev (dropWhile is_space (rev (dropWhile is_space s)))"

definition digit_val :: "char \<Rightarrow> nat option" where
  "digit_val c =
     map_of [(CHR ''0'', 0), (CHR ''1'', 1), (CHR ''2'', 2), (CHR ''3'', 3), (CHR ''4'', 4),
             (CHR ''5'', 5), (CHR ''6'', 6), (CHR ''7'', 7), (CHR ''8'', 8), (CHR ''9'', 9)] c"

fun digits_val :: "string \<Rightarrow> nat \<Rightarrow> nat option" where
  "digits_val [] acc = Some acc"
| "digits_val (c # cs) acc =
     (if c = CHR ''_''
      then (case cs of
              [] \<Rightarrow> None
            | d # _ \<Rightarrow> if d = CHR ''_'' then None else digits_val cs acc)
      else (case digit_val c of
              None \<Rightarrow> None
            | Some d \<Rightarrow> digits_val cs (10 * acc + d)))"

definition nat_literal :: "string \<Rightarrow> nat option" where
  "nat_literal s =
     (case s of
        [] \<Rightarrow> None
      | c # cs \<Rightarrow> (case digit_val c of None \<Rightarrow> None | Some d \<Rightarrow> digits_val cs d))"

definition int_literal :: "string \<Rightarrow> int option" where
  "int_literal s =
     (case strip s of
        [] \<Rightarrow> None
      | c # cs \<Rightarrow>
          if c = CHR ''-'' then map_option (\<lambda>n. - int n) (nat_literal cs)
          else if c = CHR ''+'' then map_option int (nat_literal cs)
          else map_option int (nat_literal (c # cs)))"

definition literal_digits :: "string \<Rightarrow> nat" where
  "literal_digits s = length (filter (\<lambda>c. digit_val c \<noteq> None) s)"

definition py_int :: "env \<Rightarrow> string \<Rightarrow> int result" where
  "py_int env s =
     (if list_all is_ascii s
      then (case int_literal s of
              None \<Rightarrow> Raise (ValueError s)
            | Some i \<Rightarrow> if over_limit env (literal_digits s) then Raise (ValueError s) else Ok i)
      else int_unicode env s)"

subsection \<open>Reading and setting options\<close>

text \<open>
  Every read of an option goes through the interpolation: a stored value without \<^verbatim>\<open>%\<close>
  is returned as it is, any other is what the runtime makes of it, a string or an
  exception. \<^verbatim>\<open>config[name]\<close> and \<^verbatim>\<open>section[key]\<close> raise \<^verbatim>\<open>KeyError\<close> on a missing name,
  \<^verbatim>\<open>section.get(key)\<close> gives \<^verbatim>\<open>None\<close> or the fallback, and \<^verbatim>\<open>section.getint(key, d)\<close>
  gives the fallback only when the key is missing: a value that is no integer raises
  \<^verbatim>\<open>ValueError\<close>. Without a fallback, \<^verbatim>\<open>getint\<close> gives \<^verbatim>\<open>None\<close> on a missing key.
  \<^verbatim>\<open>list(section.items())\<close> reads every option of the section in order. The
  \<^verbatim>\<open>DEFAULT\<close> section is left out.
\<close>

definition config_read :: "config option \<Rightarrow> config" where
  "config_read file = (case file of None \<Rightarrow> Map.empty | Some c \<Rightarrow> c)"

definition config_getitem :: "config \<Rightarrow> string \<Rightarrow> section_proxy result" where
  "config_getitem cfg name =
     (case cfg name of None \<Rightarrow> Raise (KeyError name) | Some sec \<Rightarrow> Ok sec)"

definition before_get :: "env \<Rightarrow> section_proxy \<Rightarrow> string \<Rightarrow> string \<Rightarrow> string result" where
  "before_get env sec key v = (if CHR ''%'' \<in> set v then interpolate env sec key v else Ok v)"

definition section_getitem :: "env \<Rightarrow> section_proxy \<Rightarrow> string \<Rightarrow> string result" where
  "section_getitem env sec key =
     (case map_of sec key of None \<Rightarrow> Raise (KeyError key) | Some v \<Rightarrow> before_get env sec key v)"

definition section_get_none :: "env \<Rightarrow> section_proxy \<Rightarrow> string \<Rightarrow> string option result" where
  "section_get_none env sec key =
     (case map_of sec key of
        None \<Rightarrow> Ok None
      | Some v \<Rightarrow> bind (before_get env sec key v) (\<lambda>x. Ok (Some x)))"

definition section_get :: "env \<Rightarrow> section_proxy \<Rightarrow> string \<Rightarrow> string \<Rightarrow> string result" where
  "section_get env sec key fallback =
     (case map_of sec key of None \<Rightarrow> Ok fallback | Some v \<Rightarrow> before_get env sec key v)"

definition section_getint :: "env \<Rightarrow> section_proxy \<Rightarrow> string \<Rightarrow> int \<Rightarrow> int result" where
  "section_getint env sec key fallback =
     (case map_of sec key of
        None \<Rightarrow> Ok fallback
      | Some v \<Rightarrow> bind (before_get env sec key v) (py_int env))"

definition section_getint_none :: "env \<Rightarrow> section_proxy \<Rightarrow> string \<Rightarrow> int option result" where
  "section_getint_none env sec key =
     (case map_of sec key of
        None \<Rightarrow> Ok None
      | Some v \<Rightarrow>
          bind (before_get env sec key v) (\<lambda>x. bind (py_int env x) (\<lambda>i. Ok (Some i))))"

fun items_of :: "env \<Rightarrow> section_proxy \<Rightarrow> string list \<Rightarrow> (string \<times> string) list result" where
  "items_of env sec [] = Ok []"
| "items_of env sec (k # ks) =
     bind (section_getitem env sec k) (\<lambda>v.
     bind (items_of env sec ks) (\<lambda>rest. Ok ((k, v) # rest)))"

definition section_items :: "env \<Rightarrow> section_proxy \<Rightarrow> (string \<times> string) list result" where
  "section_items env sec = items_of env sec (map fst sec)"

text \<open>
  \<^verbatim>\<open>config.set(name, key, str(i))\<close> for an integer \<open>i\<close>: the option keeps its place
  when the section has it and is added at the end otherwise; \<open>None\<close> is
  \<^verbatim>\<open>NoSectionError\<close>. The decimal text of an integer holds no \<^verbatim>\<open>%\<close>, so the check that
  \<^verbatim>\<open>set\<close> makes of its value passes.
\<close>

fun set_option :: "string \<Rightarrow> string \<Rightarrow> section_proxy \<Rightarrow> section_proxy" where
  "set_option key v [] = [(key, v)]"
| "set_option key v ((k, x) # rest) =
     (if k = key then (key, v) # rest else (k, x) # set_option key v rest)"

definition config_set_int :: "config \<Rightarrow> string \<Rightarrow> string \<Rightarrow> int \<Rightarrow> config option" where
  "config_set_int cfg name key i =
     (case cfg name of
        None \<Rightarrow> None
      | Some sec \<Rightarrow> Some (cfg(name \<mapsto> set_option key (str_int i) sec)))"

text \<open>Python's \<^verbatim>\<open>not v\<close> on what \<^verbatim>\<open>section.get(key)\<close> returns: \<^verbatim>\<open>None\<close> or the empty string.\<close>

definition falsy :: "string option \<Rightarrow> bool" where
  "falsy v \<longleftrightarrow> v = None \<or> v = Some []"

definition bool_from_str :: "string \<Rightarrow> bool" where
  "bool_from_str v \<longleftrightarrow> v = ''1''"

subsection \<open>Integers handed to Qt\<close>

text \<open>
  An \<^verbatim>\<open>int\<close> parameter of a Qt call is a C \<^verbatim>\<open>int\<close> of 32 bits: a Python integer outside
  its range raises \<^verbatim>\<open>OverflowError\<close>. The coordinates of a point and of the window are
  such words, read as signed.
\<close>

definition c_int_ok :: "int \<Rightarrow> bool" where
  "c_int_ok i \<longleftrightarrow> - 2147483648 \<le> i \<and> i \<le> 2147483647"

definition to_c_int :: "int \<Rightarrow> 32 word option" where
  "to_c_int i = (if c_int_ok i then Some (word_of_int i) else None)"

definition qt_int :: "string \<Rightarrow> int \<Rightarrow> 32 word result" where
  "qt_int call i = (case to_c_int i of None \<Rightarrow> Raise (OverflowError call) | Some w \<Rightarrow> Ok w)"

section \<open>The window\<close>

datatype window_flag = FramelessWindowHint | Window | WindowStaysOnTopHint | Tool

datatype background = BackgroundImage string | BackgroundColor string

datatype press_handler = DefaultPress | StartMove

datatype task = AddInfoLabels

datatype slot = UpdateInfo

datatype mouse_button = LeftButton | RightButton | MiddleButton

text \<open>
  A widget of a row: the icon (a \<^verbatim>\<open>QLabel\<close> with a pixmap scaled to the font size, or
  the \<^verbatim>\<open>ClickableLabel\<close> with its URL) and the text label with its font. A layout item
  is a widget, with the identity of the widget object and its stretch factor, or a
  nested layout.
\<close>

datatype widget =
    Icon string "int option"
  | ClickableIcon string "int option" string
  | Label string "string option"

datatype item = WidgetItem nat widget nat | LayoutItem "item list"

text \<open>
  The attributes of \<^verbatim>\<open>GenshinApp\<close> and the state of its window. \<open>position\<close> is what
  \<^verbatim>\<open>x()\<close> and \<^verbatim>\<open>y()\<close> return, the point of the last \<^verbatim>\<open>move\<close>. \<open>settings_ini\<close> is the
  file on disk, \<open>delete_later\<close> the widgets handed to \<^verbatim>\<open>deleteLater\<close>,
  \<open>adjust_size_calls\<close> counts the calls of \<^verbatim>\<open>adjustSize()\<close>, \<open>api_calls\<close> holds the
  account ids \<^verbatim>\<open>get_notes\<close> was called with and \<open>emitted\<close> the arguments of
  \<^verbatim>\<open>update_ui_signal.emit\<close>.
\<close>

record app =
  config :: config
  settings_ini :: "config option"
  file_writable :: bool
  window_flags :: "window_flag set"
  translucent_background :: bool
  window_opacity :: "string option"
  position :: "32 word \<times> 32 word"
  visible :: bool
  content_layout :: "item list"
  margins :: int
  custom_font :: "string option"
  cookies :: "(string \<times> string) list"
  font_size :: "int option"
  font_color :: string
  show_background :: bool
  background_color :: string
  background_image :: string
  corner_radius :: int
  frame_background :: background
  fixed_size :: bool
  window_size :: "int \<times> int"
  press_handler :: press_handler
  word_wrap :: bool
  fit_window_to_text :: bool
  pending :: "task list"
  timer :: "(nat \<times> slot) option"
  oldPos :: "(32 word \<times> 32 word) option"
  next_id :: nat
  delete_later :: "nat list"
  adjust_size_calls :: nat
  api_calls :: "int list"
  emitted :: "(string \<times> string \<times> string) list"

definition pos_x :: "app \<Rightarrow> int" where
  "pos_x st = sint (fst (position st))"

definition pos_y :: "app \<Rightarrow> int" where
  "pos_y st = sint (snd (position st))"

section \<open>Startup: \<^verbatim>\<open>initUI\<close>\<close>

text \<open>The window as \<^verbatim>\<open>QWidget()\<close> leaves it, before \<^verbatim>\<open>initUI\<close> has assigned anything.\<close>

definition new_app :: "env \<Rightarrow> config \<Rightarrow> app" where
  "new_app env cfg =
     \<lparr>config = cfg, settings_ini = settings_file env, file_writable = settings_writable env,
      window_flags = {}, translucent_background = False,
      window_opacity = None, position = (0, 0), visible = False, content_layout = [],
      margins = 0, custom_font = None, cookies = [], font_size = None, font_color = [],
      show_background = False, background_color = [], background_image = [],
      corner_radius = 0, frame_background = BackgroundColor [], fixed_size = False,
      window_size = (0, 0), press_handler = DefaultPress, word_wrap = False,
      fit_window_to_text = False, pending = [], timer = None, oldPos = None, next_id = 0,
      delete_later = [], adjust_size_calls = 0, api_calls = [], emitted = []\<rparr>"

text \<open>
  Lines 64 to 66: the three \<^verbatim>\<open>logging.debug\<close> calls format \<^verbatim>\<open>list(section.items())\<close> of
  the three sections, which reads every option of each.
\<close>

definition log_sections ::
  "env \<Rightarrow> section_proxy \<Rightarrow> section_proxy \<Rightarrow> section_proxy \<Rightarrow> unit result" where
  "log_sections env display_config auth_config window_config =
     bind (section_items env display_config) (\<lambda>_.
     bind (section_items env auth_config) (\<lambda>_.
     bind (section_items env window_config) (\<lambda>_. Ok ())))"

text \<open>
  Lines 68 to 71: the check for auth details. \<^verbatim>\<open>or\<close> reads the next option only when
  the one before is not empty.
\<close>

definition auth_warning :: string where
  "auth_warning = ''Authentication details are missing in settings.ini''"

definition check_auth :: "env \<Rightarrow> section_proxy \<Rightarrow> unit result" where
  "check_auth env auth_config =
     bind (section_get_none env auth_config ''ltuid_v2'') (\<lambda>ltuid.
       if falsy ltuid then Exit auth_warning else
     bind (section_get_none env auth_config ''ltoken_v2'') (\<lambda>ltoken.
       if falsy ltoken then Exit auth_warning else
     bind (section_get_none env auth_config ''cookie_token_v2'') (\<lambda>cookie_token.
       if falsy cookie_token then Exit auth_warning else
     bind (section_get_none env auth_config ''account_mid_v2'') (\<lambda>account_mid.
       if falsy account_mid then Exit auth_warning else Ok ()))))"

text \<open>Lines 77 to 82: only one of \<^verbatim>\<open>word_wrap\<close> and \<^verbatim>\<open>fit_window_to_text\<close>.\<close>

definition conflict_warning :: string where
  "conflict_warning =
     ''Both 'word_wrap' and 'fit_window_to_text' cannot be enabled simultaneously.''"

definition check_exclusive :: "env \<Rightarrow> section_proxy \<Rightarrow> (bool \<times> bool) result" where
  "check_exclusive env display_config =
     bind (section_getitem env display_config ''word_wrap'') (\<lambda>ww.
     bind (section_getitem env display_config ''fit_window_to_text'') (\<lambda>fw.
       if bool_from_str ww \<and> bool_from_str fw then Exit conflict_warning
       else Ok (bool_from_str ww, bool_from_str fw)))"

text \<open>Lines 84 to 91: window flags, translucency and opacity.\<close>

definition py_float :: "env \<Rightarrow> string \<Rightarrow> string result" where
  "py_float env s = (if float_ok env s then Ok s else Raise (ValueError s))"

definition setup_window_properties :: "env \<Rightarrow> section_proxy \<Rightarrow> app \<Rightarrow> app result" where
  "setup_window_properties env display_config st =
     bind (section_getitem env display_config ''show_in_taskbar'') (\<lambda>taskbar.
     bind (section_getitem env display_config ''transparency'') (\<lambda>transparency.
     bind (py_float env transparency) (\<lambda>opacity.
     bind (section_getitem env display_config ''always_on_top'') (\<lambda>on_top.
     bind (section_getitem env display_config ''show_in_taskbar'') (\<lambda>taskbar2.
       Ok (st\<lparr>window_flags :=
                 (if \<not> bool_from_str taskbar then {FramelessWindowHint} else {Window})
                 \<union> (if bool_from_str on_top then {WindowStaysOnTopHint} else {})
                 \<union> (if \<not> bool_from_str taskbar2 then {Tool} else {}),
               translucent_background := True,
               window_opacity := Some opacity\<rparr>))))))"

text \<open>Lines 93 and 94: the last window position.\<close>

definition restore_position :: "env \<Rightarrow> section_proxy \<Rightarrow> app \<Rightarrow> app result" where
  "restore_position env window_config st =
     bind (section_getint env window_config ''last_x'' 100) (\<lambda>x.
     bind (section_getint env window_config ''last_y'' 100) (\<lambda>y.
     bind (qt_int ''move'' x) (\<lambda>cx.
     bind (qt_int ''move'' y) (\<lambda>cy.
       Ok (st\<lparr>position := (cx, cy)\<rparr>)))))"

text \<open>Lines 96 to 120: the layouts, the margins and the font.\<close>

definition setup_layout :: "env \<Rightarrow> section_proxy \<Rightarrow> app \<Rightarrow> app result" where
  "setup_layout env display_config st =
     bind (section_getint env display_config ''margins'' 10) (\<lambda>m.
     bind (qt_int ''setContentsMargins'' m) (\<lambda>_.
       Ok (st\<lparr>content_layout := [], margins := m, custom_font := font_family env\<rparr>)))"

text \<open>Lines 122 to 125 and \<^verbatim>\<open>set_cookies\<close>.\<close>

definition set_cookies :: "env \<Rightarrow> section_proxy \<Rightarrow> app \<Rightarrow> app result" where
  "set_cookies env auth_config st =
     bind (section_getitem env auth_config ''ltuid_v2'') (\<lambda>ltuid.
     bind (section_getitem env auth_config ''ltoken_v2'') (\<lambda>ltoken.
     bind (section_getitem env auth_config ''cookie_token_v2'') (\<lambda>cookie_token.
     bind (section_getitem env auth_config ''account_mid_v2'') (\<lambda>account_mid.
       Ok (st\<lparr>cookies := [(''ltuid_v2'', ltuid), (''ltoken_v2'', ltoken),
                           (''cookie_token_v2'', cookie_token),
                           (''account_mid_v2'', account_mid)]\<rparr>)))))"

text \<open>Lines 127 to 135: font size and colour, background.\<close>

definition set_font_and_background :: "env \<Rightarrow> section_proxy \<Rightarrow> app \<Rightarrow> app result" where
  "set_font_and_background env display_config st =
     bind (section_getint_none env display_config ''font_size'') (\<lambda>fs.
     bind (section_getitem env display_config ''font_color'') (\<lambda>fc.
     bind (section_getitem env display_config ''show_background'') (\<lambda>sb.
     bind (section_getitem env display_config ''background_color'') (\<lambda>bc.
     bind (section_get env display_config ''background_image'' []) (\<lambda>image.
       Ok (st\<lparr>font_size := fs, font_color := fc, show_background := bool_from_str sb,
               background_color := bc, background_image := image\<rparr>))))))"

definition apply_styles :: "env \<Rightarrow> app \<Rightarrow> app result" where
  "apply_styles env st =
     bind (config_getitem (config st) ''Display'') (\<lambda>display_config.
     bind (section_getint env display_config ''corner_radius'' 0) (\<lambda>radius.
       Ok (st\<lparr>corner_radius := radius,
               frame_background :=
                 (if show_background st \<and> background_image st \<noteq> []
                  then BackgroundImage (background_image st)
                  else BackgroundColor (background_color st))\<rparr>)))"

text \<open>Lines 140 to 162: size, dragging, the signal, the first refresh and the timer.\<close>

definition set_size_and_dragging :: "env \<Rightarrow> section_proxy \<Rightarrow> app \<Rightarrow> app result" where
  "set_size_and_dragging env display_config st =
     bind (section_getitem env display_config ''allow_resizing'') (\<lambda>resizing.
     bind (section_getitem env display_config ''draggable'') (\<lambda>draggable.
       Ok (st\<lparr>fixed_size := \<not> bool_from_str resizing, window_size := (400, 300),
               press_handler :=
                 (if bool_from_str draggable then StartMove else press_handler st)\<rparr>)))"

definition start_refresh :: "bool \<times> bool \<Rightarrow> app \<Rightarrow> app" where
  "start_refresh flags st =
     st\<lparr>word_wrap := fst flags, fit_window_to_text := snd flags,
        pending := pending st @ [AddInfoLabels], timer := Some (60000, UpdateInfo)\<rparr>"

text \<open>
  \<^verbatim>\<open>initUI\<close> is one function; it is cut here after its two gates, so that what follows
  them (lines 84 to 162) has a name.
\<close>

definition build_window ::
  "env \<Rightarrow> config \<Rightarrow> section_proxy \<Rightarrow> section_proxy \<Rightarrow> section_proxy \<Rightarrow> bool \<times> bool \<Rightarrow> app result" where
  "build_window env cfg display_config auth_config window_config flags =
     bind (setup_window_properties env display_config (new_app env cfg)) (\<lambda>st1.
     bind (restore_position env window_config st1) (\<lambda>st2.
     bind (setup_layout env display_config st2) (\<lambda>st3.
     bind (set_cookies env auth_config st3) (\<lambda>st4.
     bind (set_font_and_background env display_config st4) (\<lambda>st5.
     bind (apply_styles env st5) (\<lambda>st6.
     bind (set_size_and_dragging env display_config st6) (\<lambda>st7.
       Ok (start_refresh flags st7))))))))"

definition initUI :: "env \<Rightarrow> app result" where
  "initUI env =
     (let cfg = config_read (settings_file env) in
      bind (config_getitem cfg ''Display'') (\<lambda>display_config.
      bind (config_getitem cfg ''Auth'') (\<lambda>auth_config.
      bind (config_getitem cfg ''Window'') (\<lambda>window_config.
      bind (log_sections env display_config auth_config window_config) (\<lambda>_.
      bind (check_auth env auth_config) (\<lambda>_.
      bind (check_exclusive env display_config) (\<lambda>flags.
        build_window env cfg display_config auth_config window_config flags)))))))"

text \<open>The main block: \<^verbatim>\<open>window = GenshinApp(); window.show()\<close>.\<close>

definition main :: "env \<Rightarrow> app result" where
  "main env = bind (initUI env) (\<lambda>st. Ok (st\<lparr>visible := True\<rparr>))"

section \<open>The render layer: \<^verbatim>\<open>update_ui\<close>\<close>

text \<open>
  A slot or an event handler leaves a state behind and may end in an exception: the
  pair of both. An exception that leaves a slot or an event handler does not come back
  to Python code: PyQt reports it and ends the process.
\<close>

type_synonym run = "app \<times> exn option"

text \<open>
  \<^verbatim>\<open>clear_layout\<close>: the loop takes the first item off the layout until none is left; a
  widget goes to \<^verbatim>\<open>deleteLater\<close>, a nested layout is cleared the same way. The loop
  at the head of \<^verbatim>\<open>update_ui\<close> is this loop, on the content layout.
\<close>

fun clear_layout :: "item list \<Rightarrow> nat list \<Rightarrow> nat list"
  and clear_item :: "item \<Rightarrow> nat list \<Rightarrow> nat list" where
  "clear_layout [] dl = dl"
| "clear_layout (i # rest) dl = clear_layout rest (clear_item i dl)"
| "clear_item (WidgetItem w _ _) dl = dl @ [w]"
| "clear_item (LayoutItem l) dl = clear_layout l dl"

definition checkin_url :: string where
  "checkin_url =
     ''https://act.hoyolab.com/ys/event/signin-sea-v3/index.html?act_id=e202102251931481''"

text \<open>
  \<^verbatim>\<open>scaledToHeight(self.font_size)\<close> takes a C \<^verbatim>\<open>int\<close>: \<^verbatim>\<open>None\<close>, which
  \<^verbatim>\<open>getint('font_size')\<close> gives for a missing key, raises \<^verbatim>\<open>TypeError\<close>, and an integer
  out of range raises \<^verbatim>\<open>OverflowError\<close>.
\<close>

definition height_error :: "int option \<Rightarrow> exn option" where
  "height_error fs =
     (case fs of
        None \<Rightarrow> Some (TypeError ''scaledToHeight'')
      | Some h \<Rightarrow> if c_int_ok h then None else Some (OverflowError ''scaledToHeight''))"

text \<open>
  After the clearing loop the first icon is created and its pixmap scaled (line 238);
  when that raises, the layout is left empty. Otherwise each row is a fresh
  \<^verbatim>\<open>QHBoxLayout\<close> holding a fresh icon and a fresh label (stretch factor 1); the six
  widgets take the next six identities, in the order the code constructs them.
\<close>

definition update_ui :: "app \<Rightarrow> string \<Rightarrow> string \<Rightarrow> string \<Rightarrow> run" where
  "update_ui st resin_info checkin_info realm_currency_info =
     (let n = next_id st;
          cleared = st\<lparr>content_layout := [],
                       delete_later := clear_layout (content_layout st) (delete_later st)\<rparr>;
          resin_row = LayoutItem
            [WidgetItem n (Icon ''resin.png'' (font_size st)) 0,
             WidgetItem (n + 1) (Label resin_info (custom_font st)) 1];
          checkin_row = LayoutItem
            [WidgetItem (n + 2) (ClickableIcon ''checkin.png'' (font_size st) checkin_url) 0,
             WidgetItem (n + 3) (Label checkin_info (custom_font st)) 1];
          realm_currency_row = LayoutItem
            [WidgetItem (n + 4) (Icon ''realmCurr.png'' (font_size st)) 0,
             WidgetItem (n + 5) (Label realm_currency_info (custom_font st)) 1]
      in case height_error (font_size st) of
           Some e \<Rightarrow> (cleared\<lparr>next_id := n + 1\<rparr>, Some e)
         | None \<Rightarrow>
             (cleared\<lparr>content_layout := [resin_row, checkin_row, realm_currency_row],
                      next_id := n + 6,
                      adjust_size_calls :=
                        (if fit_window_to_text st then adjust_size_calls st + 1
                         else adjust_size_calls st)\<rparr>,
              None))"

text \<open>
  \<^verbatim>\<open>update_ui_signal.emit\<close>: \<^verbatim>\<open>initUI\<close> connects the signal to \<^verbatim>\<open>update_ui\<close> before
  anything can emit, so an emit runs the slot.
\<close>

definition emit :: "app \<Rightarrow> string \<times> string \<times> string \<Rightarrow> run" where
  "emit st t =
     (case t of (a, b, c) \<Rightarrow> update_ui (st\<lparr>emitted := emitted st @ [t]\<rparr>) a b c)"

text \<open>What is read off the screen: the widget identities and the label texts of the rows.\<close>

fun widget_ids :: "item \<Rightarrow> nat list" and widget_ids_list :: "item list \<Rightarrow> nat list" where
  "widget_ids (WidgetItem w _ _) = [w]"
| "widget_ids (LayoutItem l) = widget_ids_list l"
| "widget_ids_list [] = []"
| "widget_ids_list (i # rest) = widget_ids i @ widget_ids_list rest"

fun label_texts :: "item \<Rightarrow> string list" and label_texts_list :: "item list \<Rightarrow> string list" where
  "label_texts (WidgetItem _ (Label t _) _) = [t]"
| "label_texts (WidgetItem _ (Icon _ _) _) = []"
| "label_texts (WidgetItem _ (ClickableIcon _ _ _) _) = []"
| "label_texts (LayoutItem l) = label_texts_list l"
| "label_texts_list [] = []"
| "label_texts_list (i # rest) = label_texts i @ label_texts_list rest"

fun is_icon_label_row :: "item \<Rightarrow> bool" where
  "is_icon_label_row (LayoutItem [WidgetItem _ (Icon _ _) _, WidgetItem _ (Label _ _) _]) = True"
| "is_icon_label_row (LayoutItem [WidgetItem _ (ClickableIcon _ _ _) _, WidgetItem _ (Label _ _) _]) = True"
| "is_icon_label_row _ = False"

section \<open>The refresh: \<^verbatim>\<open>update_info\<close>\<close>

record genshin_notes =
  current_resin :: int
  max_resin :: int
  claimed_commission_reward :: bool
  current_realm_currency :: int

text \<open>
  Line 201, \<^verbatim>\<open>int(self.config['Auth']['ltuid_v2'])\<close>, and line 204,
  \<^verbatim>\<open>self.config['Display'].get('show_notes', '0')\<close>.
\<close>

definition configured_uid :: "env \<Rightarrow> config \<Rightarrow> int result" where
  "configured_uid env cfg =
     bind (config_getitem cfg ''Auth'') (\<lambda>auth_config.
     bind (section_getitem env auth_config ''ltuid_v2'') (py_int env))"

definition show_notes_flag :: "env \<Rightarrow> config \<Rightarrow> string result" where
  "show_notes_flag env cfg =
     bind (config_getitem cfg ''Display'') (\<lambda>display_config.
       section_get env display_config ''show_notes'' ''0'')"

text \<open>Lines 210 to 212: the three f-strings.\<close>

definition notes_texts :: "env \<Rightarrow> genshin_notes \<Rightarrow> (string \<times> string \<times> string) result" where
  "notes_texts env n =
     bind (py_str env (current_resin n)) (\<lambda>resin.
     bind (py_str env (max_resin n)) (\<lambda>resin_max.
     bind (py_str env (current_realm_currency n)) (\<lambda>currency.
       Ok (''Resin: '' @ resin @ ''/'' @ resin_max,
           ''Daily Reward Claimed: '' @ str_bool (claimed_commission_reward n),
           ''Realm Currency: '' @ currency @ ''/2400''))))"

text \<open>
  The account client is outside the program: \<open>get_notes uid\<close> is what
  \<^verbatim>\<open>await self.client.get_notes(uid)\<close> gives, the notes or the exception raised.
  \<open>on_error\<close> is the handler of line 218: \<^verbatim>\<open>except Exception\<close> catches everything but
  \<^verbatim>\<open>SystemExit\<close> and emits the text of the exception with two empty texts.
\<close>

definition on_error :: "env \<Rightarrow> app \<Rightarrow> exn \<Rightarrow> run" where
  "on_error env st e =
     (if is_exception e then emit st (''Error fetching data: '' @ exn_text env e, [], [])
      else (st, Some e))"

definition update_info :: "env \<Rightarrow> (int \<Rightarrow> genshin_notes result) \<Rightarrow> app \<Rightarrow> run" where
  "update_info env get_notes st =
     (case caught (configured_uid env (config st)) of
        Inl e \<Rightarrow> on_error env st e
      | Inr uid \<Rightarrow>
          (case caught (show_notes_flag env (config st)) of
             Inl e \<Rightarrow> on_error env st e
           | Inr show_notes \<Rightarrow>
               if bool_from_str show_notes
               then
                 (let st1 = st\<lparr>api_calls := api_calls st @ [uid]\<rparr> in
                  case caught (get_notes uid) of
                    Inr n \<Rightarrow>
                      (case caught (notes_texts env n) of
                         Inr t \<Rightarrow> emit st1 t
                       | Inl e \<Rightarrow> on_error env st1 e)
                  | Inl e \<Rightarrow>
                      (case e of
                         GenshinException _ \<Rightarrow>
                           emit st1 (''Error fetching notes: '' @ exn_text env e, [], [])
                       | _ \<Rightarrow> on_error env st1 e))
               else (st, None)))"

definition add_info_labels :: "env \<Rightarrow> (int \<Rightarrow> genshin_notes result) \<Rightarrow> app \<Rightarrow> run" where
  "add_info_labels env get_notes st = update_info env get_notes st"

text \<open>
  The event loop runs the coroutine \<^verbatim>\<open>initUI\<close> scheduled, and the timer's timeout calls
  the slot it is connected to.
\<close>

definition run_pending :: "env \<Rightarrow> (int \<Rightarrow> genshin_notes result) \<Rightarrow> app \<Rightarrow> run" where
  "run_pending env get_notes st =
     (case pending st of
        [] \<Rightarrow> (st, None)
      | AddInfoLabels # rest \<Rightarrow> add_info_labels env get_notes (st\<lparr>pending := rest\<rparr>))"

definition timeout :: "env \<Rightarrow> (int \<Rightarrow> genshin_notes result) \<Rightarrow> app \<Rightarrow> run" where
  "timeout env get_notes st =
     (case timer st of
        None \<Rightarrow> (st, None)
      | Some (ms, UpdateInfo) \<Rightarrow> update_info env get_notes st)"

section \<open>Dragging and closing\<close>

definition startMove :: "app \<Rightarrow> mouse_button \<Rightarrow> 32 word \<times> 32 word \<Rightarrow> app" where
  "startMove st button globalPos =
     (if button = LeftButton then st\<lparr>oldPos := Some globalPos\<rparr> else st)"

definition mousePressEvent :: "app \<Rightarrow> mouse_button \<Rightarrow> 32 word \<times> 32 word \<Rightarrow> app" where
  "mousePressEvent st button globalPos =
     (case press_handler st of
        StartMove \<Rightarrow> startMove st button globalPos
      | DefaultPress \<Rightarrow> st)"

text \<open>
  The four statements that \<^verbatim>\<open>mouseMoveEvent\<close> (lines 304 to 307) and \<^verbatim>\<open>closeEvent\<close>
  (lines 311 to 314) share: both options are set in the configuration, then the file is
  opened for writing and the configuration written over it.
\<close>

definition save_position :: "app \<Rightarrow> run" where
  "save_position st =
     (case config_set_int (config st) ''Window'' ''last_x'' (pos_x st) of
        None \<Rightarrow> (st, Some (NoSectionError ''Window''))
      | Some c1 \<Rightarrow>
          (case config_set_int c1 ''Window'' ''last_y'' (pos_y st) of
             None \<Rightarrow> (st\<lparr>config := c1\<rparr>, Some (NoSectionError ''Window''))
           | Some c2 \<Rightarrow>
               if file_writable st then (st\<lparr>config := c2, settings_ini := Some c2\<rparr>, None)
               else (st\<lparr>config := c2\<rparr>, Some (OSError ''settings.ini''))))"

text \<open>
  \<^verbatim>\<open>self.oldPos\<close> exists only once \<^verbatim>\<open>startMove\<close> has assigned it. The difference of the
  two points is taken by Qt on C \<^verbatim>\<open>int\<close>s, the sums of line 300 are Python integers, and
  \<^verbatim>\<open>self.move\<close> takes C \<^verbatim>\<open>int\<close>s again.
\<close>

definition mouseMoveEvent :: "app \<Rightarrow> 32 word \<times> 32 word \<Rightarrow> run" where
  "mouseMoveEvent st globalPos =
     (case oldPos st of
        None \<Rightarrow> (st, Some (AttributeError ''oldPos''))
      | Some old \<Rightarrow>
          (case to_c_int (pos_x st + sint (fst globalPos - fst old)) of
             None \<Rightarrow> (st, Some (OverflowError ''move''))
           | Some x \<Rightarrow>
               (case to_c_int (pos_y st + sint (snd globalPos - snd old)) of
                  None \<Rightarrow> (st, Some (OverflowError ''move''))
                | Some y \<Rightarrow> save_position (st\<lparr>position := (x, y), oldPos := Some globalPos\<rparr>))))"

definition closeEvent :: "app \<Rightarrow> run" where
  "closeEvent st =
     (case save_position st of
        (st', None) \<Rightarrow> (st'\<lparr>visible := False\<rparr>, None)
      | (st', Some e) \<Rightarrow> (st', Some e))"

section \<open>Reading the state\<close>

text \<open>The stored value of an option, \<open>None\<close> when the section or the option is missing.\<close>

definition option_of :: "config \<Rightarrow> string \<Rightarrow> string \<Rightarrow> string option" where
  "option_of cfg name key = (case cfg name of None \<Rightarrow> None | Some sec \<Rightarrow> map_of sec key)"

text \<open>Every widget identity in use, on the layout or handed to deletion, has been allocated.\<close>

definition ids_allocated :: "app \<Rightarrow> bool" where
  "ids_allocated st \<longleftrightarrow>
     list_all (\<lambda>w. w < next_id st) (widget_ids_list (content_layout st) @ delete_later st)"

definition is_digit :: "char \<Rightarrow> bool" where
  "is_digit c \<longleftrightarrow> c \<in> digit_char ` {0..<10}"

section \<open>A settings file\<close>

text \<open>
  A complete \<^verbatim>\<open>settings.ini\<close>, and an environment in which the font file loads, the
  file can be written and the limit on digits is the default.
\<close>

definition sample_display :: section_proxy where
  "sample_display =
     [(''word_wrap'', ''0''), (''fit_window_to_text'', ''1''), (''show_in_taskbar'', ''0''),
      (''transparency'', ''0.9''), (''always_on_top'', ''1''), (''font_size'', ''14''),
      (''font_color'', ''white''), (''show_background'', ''1''),
      (''background_color'', ''black''), (''allow_resizing'', ''0''), (''draggable'', ''1''),
      (''show_notes'', ''1'')]"

definition sample_auth :: section_proxy where
  "sample_auth =
     [(''ltuid_v2'', ''12345''), (''ltoken_v2'', ''v2_token''),
      (''cookie_token_v2'', ''v2_cookie''), (''account_mid_v2'', ''mid'')]"

definition sample_window :: section_proxy where
  "sample_window = [(''last_x'', ''250''), (''last_y'', ''80'')]"

definition sample_settings :: config where
  "sample_settings =
     [''Display'' \<mapsto> sample_display, ''Auth'' \<mapsto> sample_auth, ''Window'' \<mapsto> sample_window]"

fun sample_text :: "exn \<Rightarrow> string" where
  "sample_text (GenshinException m) = m"
| "sample_text (OtherException m) = m"
| "sample_text (KeyError k) = ''key '' @ k"
| "sample_text (ValueError v) = ''invalid literal: '' @ v"
| "sample_text e = ''error''"

fun sample_interpolate :: "section_proxy \<Rightarrow> string \<Rightarrow> string \<Rightarrow> string result" where
  "sample_interpolate sec key v = Raise (InterpolationError key)"

fun sample_int_unicode :: "string \<Rightarrow> int result" where
  "sample_int_unicode s = Raise (ValueError s)"

fun sample_float_ok :: "string \<Rightarrow> bool" where
  "sample_float_ok s = (s = ''0.9'')"

definition sample_env :: env where
  "sample_env =
     \<lparr>settings_file = Some sample_settings, settings_writable = True,
      font_family = Some ''HYWenHei-85W'', float_ok = sample_float_ok,
      interpolate = sample_interpolate, int_unicode = sample_int_unicode,
      max_str_digits = 4300, exn_text = sample_text\<rparr>"

definition sample_notes :: genshin_notes where
  "sample_notes =
     \<lparr>current_resin = 30, max_resin = 160, claimed_commission_reward = True,
      current_realm_currency = 1200\<rparr>"

text \<open>A client that returns these notes, and one that raises its exception.\<close>

definition sample_client :: "int \<Rightarrow> genshin_notes result" where
  "sample_client uid = Ok sample_notes"

definition failing_client :: "int \<Rightarrow> genshin_notes result" where
  "failing_client uid = Raise (GenshinException ''Too many requests'')"

text \<open>The window \<^verbatim>\<open>initUI\<close> builds from this file.\<close>

definition sample_app :: app where
  "sample_app =
     \<lparr>config = sample_settings, settings_ini = Some sample_settings, file_writable = True,
      window_flags = {FramelessWindowHint, WindowStaysOnTopHint, Tool},
      translucent_background = True, window_opacity = Some ''0.9'', position = (250, 80),
      visible = False, content_layout = [], margins = 10,
      custom_font = Some ''HYWenHei-85W'',
      cookies = [(''ltuid_v2'', ''12345''), (''ltoken_v2'', ''v2_token''),
                 (''cookie_token_v2'', ''v2_cookie''), (''account_mid_v2'', ''mid'')],
      font_size = Some 14, font_color = ''white'', show_background = True,
      background_color = ''black'', background_image = [], corner_radius = 0,
      frame_background = BackgroundColor ''black'', fixed_size = True,
      window_size = (400, 300), press_handler = StartMove, word_wrap = False,
      fit_window_to_text = True, pending = [AddInfoLabels], timer = Some (60000, UpdateInfo),
      oldPos = None, next_id = 0, delete_later = [], adjust_size_calls = 0, api_calls = [],
      emitted = []\<rparr>"

text \<open>Settings files that differ from the complete one in a single place.\<close>

definition no_font_size_display :: section_proxy where
  "no_font_size_display = filter (\<lambda>kv. fst kv \<noteq> ''font_size'') sample_display"

definition no_font_size_settings :: config where
  "no_font_size_settings = sample_settings(''Display'' \<mapsto> no_font_size_display)"


definition no_font_size_app :: app where
  "no_font_size_app =
     sample_app\<lparr>config := no_font_size_settings, settings_ini := Some no_font_size_settings,
                font_size := None\<rparr>"

definition bad_uid_settings :: config where
  "bad_uid_settings =
     sample_settings(''Auth'' \<mapsto> (''ltuid_v2'', ''abc'') # tl sample_auth)"

definition bad_uid_app :: app where
  "bad_uid_app = sample_app\<lparr>config := bad_uid_settings\<rparr>"



definition empty_ltuid_auth :: section_proxy where
  "empty_ltuid_auth = (''ltuid_v2'', []) # tl sample_auth"

definition empty_ltuid_env :: env where
  "empty_ltuid_env =
     sample_env\<lparr>settings_file := Some (sample_settings(''Auth'' \<mapsto> empty_ltuid_auth))\<rparr>"

definition missing_file_env :: env where
  "missing_file_env = sample_env\<lparr>settings_file := None\<rparr>"

definition conflict_display :: section_proxy where
  "conflict_display = (''word_wrap'', ''1'') # tl sample_display"

definition conflict_env :: env where
  "conflict_env =
     sample_env\<lparr>settings_file := Some (sample_settings(''Display'' \<mapsto> conflict_display))\<rparr>"

definition conflict_empty_ltuid_env :: env where
  "conflict_empty_ltuid_env =
     sample_env\<lparr>settings_file :=
       Some (sample_settings(''Display'' \<mapsto> conflict_display,
                             ''Auth'' \<mapsto> empty_ltuid_auth))\<rparr>"

definition no_word_wrap_env :: env where
  "no_word_wrap_env =
     sample_env\<lparr>settings_file := Some (sample_settings(''Display'' \<mapsto> tl sample_display))\<rparr>"


text \<open>
  Settings files with a stray \<^verbatim>\<open>%\<close> in \<^verbatim>\<open>font_color\<close>, which the interpolation refuses:
  one with both display flags enabled, and one that has an empty \<^verbatim>\<open>ltuid_v2\<close> as well.
\<close>

definition stray_percent_display :: section_proxy where
  "stray_percent_display =
     map (\<lambda>kv. if fst kv = ''font_color'' then (''font_color'', ''50%'') else kv)
       conflict_display"

definition stray_percent_conflict_env :: env where
  "stray_percent_conflict_env =
     sample_env\<lparr>settings_file :=
       Some (sample_settings(''Display'' \<mapsto> stray_percent_display))\<rparr>"

definition stray_percent_empty_ltuid_env :: env where
  "stray_percent_empty_ltuid_env =
     sample_env\<lparr>settings_file :=
       Some (sample_settings(''Display'' \<mapsto> stray_percent_display,
                             ''Auth'' \<mapsto> empty_ltuid_auth))\<rparr>"
section \<open>Facts about the render layer\<close>

lemmas sample_defs =
  sample_display_def sample_auth_def sample_window_def sample_settings_def sample_env_def
  sample_app_def sample_notes_def sample_client_def failing_client_def

lemmas cfg_defs =
  config_read_def config_getitem_def before_get_def section_getitem_def section_get_none_def
  section_get_def section_getint_def section_getint_none_def section_items_def

lemmas int_defs =
  py_int_def int_literal_def strip_def is_space_def nat_literal_def digit_val_def
  literal_digits_def over_limit_def is_ascii_def

lemma clear_layout_ids:
  "clear_layout l dl = dl @ widget_ids_list l"
  "clear_item i dl = dl @ widget_ids i"
  by (induction l dl and i dl rule: clear_layout_clear_item.induct) simp_all

lemma height_error_None: "font_size st = Some h \<Longrightarrow> c_int_ok h \<Longrightarrow> height_error (font_size st) = None"
  by (simp add: height_error_def)

lemma update_ui_status: "snd (update_ui st a b c) = height_error (font_size st)"
  by (simp add: update_ui_def Let_def split: option.splits)

lemma update_ui_always:
  "delete_later (fst (update_ui st a b c)) = delete_later st @ widget_ids_list (content_layout st)"
  "api_calls (fst (update_ui st a b c)) = api_calls st"
  "emitted (fst (update_ui st a b c)) = emitted st"
  "config (fst (update_ui st a b c)) = config st"
  "settings_ini (fst (update_ui st a b c)) = settings_ini st"
  "timer (fst (update_ui st a b c)) = timer st"
  "pending (fst (update_ui st a b c)) = pending st"
  "position (fst (update_ui st a b c)) = position st"
  "font_size (fst (update_ui st a b c)) = font_size st"
  "fit_window_to_text (fst (update_ui st a b c)) = fit_window_to_text st"
  "custom_font (fst (update_ui st a b c)) = custom_font st"
  "oldPos (fst (update_ui st a b c)) = oldPos st"
  "file_writable (fst (update_ui st a b c)) = file_writable st"
  by (simp_all add: update_ui_def Let_def clear_layout_ids split: option.splits)

lemma update_ui_raised:
  assumes "height_error (font_size st) = Some e"
  shows "content_layout (fst (update_ui st a b c)) = []"
    and "adjust_size_calls (fst (update_ui st a b c)) = adjust_size_calls st"
    and "next_id (fst (update_ui st a b c)) = next_id st + 1"
  using assms by (simp_all add: update_ui_def Let_def)

lemma update_ui_layout:
  assumes "height_error (font_size st) = None"
  shows "content_layout (fst (update_ui st a b c)) =
     [LayoutItem [WidgetItem (next_id st) (Icon ''resin.png'' (font_size st)) 0,
                  WidgetItem (next_id st + 1) (Label a (custom_font st)) 1],
      LayoutItem [WidgetItem (next_id st + 2)
                    (ClickableIcon ''checkin.png'' (font_size st) checkin_url) 0,
                  WidgetItem (next_id st + 3) (Label b (custom_font st)) 1],
      LayoutItem [WidgetItem (next_id st + 4) (Icon ''realmCurr.png'' (font_size st)) 0,
                  WidgetItem (next_id st + 5) (Label c (custom_font st)) 1]]"
  using assms by (simp add: update_ui_def Let_def)

lemma update_ui_rows:
  assumes "height_error (font_size st) = None"
  shows "length (content_layout (fst (update_ui st a b c))) = 3"
    and "list_all is_icon_label_row (content_layout (fst (update_ui st a b c)))"
    and "map label_texts (content_layout (fst (update_ui st a b c))) = [[a], [b], [c]]"
    and "next_id (fst (update_ui st a b c)) = next_id st + 6"
    and "adjust_size_calls (fst (update_ui st a b c)) =
          (if fit_window_to_text st then adjust_size_calls st + 1 else adjust_size_calls st)"
  using assms by (simp_all add: update_ui_def Let_def)

lemma emit_always:
  "emitted (fst (emit st t)) = emitted st @ [t]"
  "api_calls (fst (emit st t)) = api_calls st"
  "config (fst (emit st t)) = config st"
  "settings_ini (fst (emit st t)) = settings_ini st"
  "timer (fst (emit st t)) = timer st"
  "pending (fst (emit st t)) = pending st"
  "snd (emit st t) = height_error (font_size st)"
  by (simp_all add: emit_def update_ui_always update_ui_status split: prod.splits)



lemma ids_allocatedD:
  "ids_allocated st \<Longrightarrow> w \<in> set (widget_ids_list (content_layout st)) \<union> set (delete_later st)
     \<Longrightarrow> w < next_id st"
  by (auto simp: ids_allocated_def list_all_iff)

lemma ids_allocated_update_ui:
  assumes "ids_allocated st"
  shows "ids_allocated (fst (update_ui st a b c))"
proof -
  have less: "w < next_id st"
    if "w \<in> set (widget_ids_list (content_layout st)) \<union> set (delete_later st)" for w
    using ids_allocatedD [OF assms that] .
  show ?thesis
  proof (cases "height_error (font_size st)")
    case None
    from less have "w < next_id st + 6"
      if "w \<in> set (widget_ids_list (content_layout st)) \<union> set (delete_later st)" for w
      using that by fastforce
    then show ?thesis
      by (auto simp: ids_allocated_def update_ui_always update_ui_layout [OF None]
          update_ui_rows(4) [OF None] list_all_iff)
  next
    case (Some e)
    from less have "w < next_id st + 1"
      if "w \<in> set (widget_ids_list (content_layout st)) \<union> set (delete_later st)" for w
      using that by fastforce
    then show ?thesis
      by (auto simp: ids_allocated_def update_ui_always update_ui_raised [OF Some] list_all_iff)
  qed
qed

lemma update_ui_fresh:
  assumes "ids_allocated st" and "height_error (font_size st) = None"
  shows "set (widget_ids_list (content_layout (fst (update_ui st a b c))))
           \<inter> set (widget_ids_list (content_layout st) @ delete_later st) = {}"
proof -
  have "v \<notin> set (widget_ids_list (content_layout st)) \<union> set (delete_later st)"
    if "next_id st \<le> v" for v
    using ids_allocatedD [OF assms(1), of v] that by auto
  then show ?thesis by (auto simp: update_ui_layout [OF assms(2)])
qed

lemma str_int_30: "str_int 30 = ''30''"
  and str_int_160: "str_int 160 = ''160''"
  and str_int_1200: "str_int 1200 = ''1200''"
  by (simp_all add: str_int_def str_nat.simps digit_char_def)


text \<open>
  C8, as the code has it. In a window whose \<^verbatim>\<open>font_size\<close> is configured, an integer
  in the range of a C \<^verbatim>\<open>int\<close>, \<^verbatim>\<open>update_ui\<close> returns; it hands every widget that was on
  the content layout to \<^verbatim>\<open>deleteLater\<close> and leaves on the layout exactly three icon and
  label rows made of six newly created widgets. In a state whose widget identities
  have all been allocated, which startup establishes and every handler keeps, none of
  the six was on the layout or handed to deletion before, so no widget is used again.
  \<^verbatim>\<open>adjustSize()\<close> is called after the update exactly when \<^verbatim>\<open>fit_window_to_text\<close> is set.
\<close>

theorem update_ui_discards_and_recreates:
  assumes "font_size st = Some h" and "c_int_ok h"
  shows "snd (update_ui st a b c) = None
   \<and> delete_later (fst (update_ui st a b c))
       = delete_later st @ widget_ids_list (content_layout st)
   \<and> length (content_layout (fst (update_ui st a b c))) = 3
   \<and> list_all is_icon_label_row (content_layout (fst (update_ui st a b c)))
   \<and> widget_ids_list (content_layout (fst (update_ui st a b c))) =
       [next_id st, next_id st + 1, next_id st + 2, next_id st + 3, next_id st + 4,
        next_id st + 5]
   \<and> (ids_allocated st \<longrightarrow>
        set (widget_ids_list (content_layout (fst (update_ui st a b c))))
          \<inter> set (widget_ids_list (content_layout st) @ delete_later st) = {}
        \<and> ids_allocated (fst (update_ui st a b c)))
   \<and> (adjust_size_calls (fst (update_ui st a b c)) = adjust_size_calls st + 1)
       = fit_window_to_text st
   \<and> (adjust_size_calls (fst (update_ui st a b c)) = adjust_size_calls st)
       = (\<not> fit_window_to_text st)"
proof -
  note ok = height_error_None [OF assms]
  show ?thesis
    using update_ui_fresh [of st a b c, OF _ ok] ids_allocated_update_ui [of st a b c]
    by (simp add: update_ui_status ok update_ui_always update_ui_rows [OF ok]
        update_ui_layout [OF ok])
qed

theorem update_ui_discards_and_recreates_witness:
  "font_size sample_app = Some 14 \<and> c_int_ok 14
   \<and> snd (update_ui sample_app ''a'' ''b'' ''c'') = None
   \<and> widget_ids_list (content_layout (fst (update_ui sample_app ''a'' ''b'' ''c'')))
     = [0, 1, 2, 3, 4, 5]
   \<and> snd (update_ui (fst (update_ui sample_app ''a'' ''b'' ''c'')) ''x'' ''y'' ''z'') = None
   \<and> delete_later (fst (update_ui (fst (update_ui sample_app ''a'' ''b'' ''c'')) ''x'' ''y'' ''z''))
     = [0, 1, 2, 3, 4, 5]
   \<and> widget_ids_list
       (content_layout (fst (update_ui (fst (update_ui sample_app ''a'' ''b'' ''c'')) ''x'' ''y'' ''z'')))
     = [6, 7, 8, 9, 10, 11]
   \<and> map label_texts
       (content_layout (fst (update_ui (fst (update_ui sample_app ''a'' ''b'' ''c'')) ''x'' ''y'' ''z'')))
     = [[''x''], [''y''], [''z'']]
   \<and> adjust_size_calls
       (fst (update_ui (fst (update_ui sample_app ''a'' ''b'' ''c'')) ''x'' ''y'' ''z'')) = 2"
proof -
  have f: "font_size sample_app = Some 14" "c_int_ok 14"
    by (simp_all add: sample_app_def c_int_ok_def)
  have f1: "font_size (fst (update_ui sample_app ''a'' ''b'' ''c'')) = Some 14"
    by (simp add: update_ui_always f)
  note ok = height_error_None [OF f] and ok1 = height_error_None [OF f1 f(2)]
  have s: "next_id sample_app = 0" "delete_later sample_app = []"
    "content_layout sample_app = []" "adjust_size_calls sample_app = 0"
    "fit_window_to_text sample_app" "ids_allocated sample_app"
    by (simp_all add: sample_app_def ids_allocated_def)
  have g: "fit_window_to_text (fst (update_ui sample_app ''a'' ''b'' ''c''))"
    by (simp add: update_ui_always s)
  from update_ui_discards_and_recreates [OF f, of "''a''" "''b''" "''c''"]
    update_ui_discards_and_recreates [OF f1 f(2), of "''x''" "''y''" "''z''"]
  show ?thesis
    by (simp add: f s g update_ui_rows [OF ok] update_ui_rows [OF ok1] update_ui_layout [OF ok])
qed

text \<open>
  C8, as the claim states it, fails in a window startup builds from a settings file
  without \<^verbatim>\<open>font_size\<close>: \<^verbatim>\<open>update_ui\<close> raises at line 238, after the clearing loop, and
  leaves no row on the layout and \<^verbatim>\<open>adjustSize()\<close> uncalled although
  \<^verbatim>\<open>fit_window_to_text\<close> is set.
\<close>

theorem update_ui_discards_and_recreates_counterexample:
  "fit_window_to_text no_font_size_app
   \<and> snd (update_ui no_font_size_app ''a'' ''b'' ''c'') = Some (TypeError ''scaledToHeight'')
   \<and> content_layout (fst (update_ui no_font_size_app ''a'' ''b'' ''c'')) = []
   \<and> adjust_size_calls (fst (update_ui no_font_size_app ''a'' ''b'' ''c''))
       = adjust_size_calls no_font_size_app"
  by (simp add: update_ui_def Let_def height_error_def no_font_size_app_def sample_app_def)




section \<open>The refresh and its rows\<close>



lemma update_info_bad_uid:
  assumes "config st ''Auth'' = Some auth_config"
    and "section_getitem env auth_config ''ltuid_v2'' = Ok s"
    and "py_int env s = Raise (ValueError v)"
  shows "update_info env get_notes st =
     emit st (''Error fetching data: '' @ exn_text env (ValueError v), [], [])"
  using assms by (simp add: update_info_def configured_uid_def config_getitem_def on_error_def)








text \<open>
  C9. \<^verbatim>\<open>update_info\<close> converts \<^verbatim>\<open>ltuid_v2\<close> before it looks at \<^verbatim>\<open>show_notes\<close>. When
  \<^verbatim>\<open>int\<close> raises its \<^verbatim>\<open>ValueError\<close> on the value, every call of \<^verbatim>\<open>update_info\<close>,
  whatever the \<^verbatim>\<open>Display\<close> section holds and whatever the window looks like, emits
  \<^verbatim>\<open>Error fetching data: \<close> followed by the text of the exception, with two empty
  texts, and \<^verbatim>\<open>get_notes\<close> is not called. Whether the slot then returns rests on
  \<^verbatim>\<open>font_size\<close> alone. A value in ASCII that is no integer literal is such a value.
\<close>

theorem invalid_uid_fails_every_tick:
  assumes "config st ''Auth'' = Some auth_config"
    and "section_getitem env auth_config ''ltuid_v2'' = Ok s"
    and "py_int env s = Raise (ValueError v)"
  shows "emitted (fst (update_info env get_notes st)) =
           emitted st @ [(''Error fetching data: '' @ exn_text env (ValueError v), [], [])]
       \<and> api_calls (fst (update_info env get_notes st)) = api_calls st
       \<and> snd (update_info env get_notes st) = height_error (font_size st)
       \<and> (list_all is_ascii s \<and> int_literal s = None \<longrightarrow> v = s)"
  using assms(3)
  by (auto simp add: update_info_bad_uid [OF assms] emit_always py_int_def)

theorem invalid_uid_fails_every_tick_witness:
  "emitted (fst (update_info sample_env sample_client bad_uid_app)) =
      [(''Error fetching data: invalid literal: abc'', [], [])]
   \<and> api_calls (fst (update_info sample_env sample_client bad_uid_app)) = []
   \<and> snd (update_info sample_env sample_client bad_uid_app) = None
   \<and> emitted (fst (update_info sample_env sample_client
        (bad_uid_app\<lparr>config := bad_uid_settings(''Display'' \<mapsto> [(''show_notes'', ''0'')])\<rparr>))) =
      [(''Error fetching data: invalid literal: abc'', [], [])]"
proof -
  let ?auth = "(''ltuid_v2'', ''abc'') # tl sample_auth"
  let ?off = "bad_uid_app\<lparr>config := bad_uid_settings(''Display'' \<mapsto> [(''show_notes'', ''0'')])\<rparr>"
  have auth: "config bad_uid_app ''Auth'' = Some ?auth" "config ?off ''Auth'' = Some ?auth"
    by (simp_all add: bad_uid_app_def bad_uid_settings_def sample_settings_def)
  have read: "section_getitem sample_env ?auth ''ltuid_v2'' = Ok ''abc''"
    by (simp add: cfg_defs)
  have bad: "py_int sample_env ''abc'' = Raise (ValueError ''abc'')"
    by (simp add: int_defs sample_env_def)
  have shown: "exn_text sample_env (ValueError ''abc'') = ''invalid literal: abc''"
    by (simp add: sample_env_def)
  have st: "emitted bad_uid_app = []" "api_calls bad_uid_app = []"
    "height_error (font_size bad_uid_app) = None" "emitted ?off = []"
    by (simp_all add: bad_uid_app_def sample_app_def height_error_def c_int_ok_def)
  from invalid_uid_fails_every_tick [OF auth(1) read bad, of sample_client]
    invalid_uid_fails_every_tick [OF auth(2) read bad, of sample_client]
  show ?thesis
    by (simp only: st shown append_Nil append.simps)
qed

section \<open>The gates of startup and the first position\<close>

lemma bind_Ok_iff: "bind r f = Ok y \<longleftrightarrow> (\<exists>x. r = Ok x \<and> f x = Ok y)"
  by (cases r) auto



lemma c_int_ok_sint: "c_int_ok (sint (w :: 32 word))"
  using sint_ge [of w] sint_lt [of w] by (simp add: c_int_ok_def)





lemma build_window_fields:
  assumes "build_window env cfg d a w flags = Ok st"
  shows "pending st = [AddInfoLabels]" "timer st = Some (60000, UpdateInfo)"
    "content_layout st = []" "next_id st = 0" "delete_later st = []"
    "config st = cfg" "settings_ini st = settings_file env" "oldPos st = None"
    "word_wrap st = fst flags" "fit_window_to_text st = snd flags"
    "api_calls st = []" "emitted st = []" "\<not> visible st"
    "file_writable st = settings_writable env"
  using assms
  by (auto simp: build_window_def bind_Ok_iff setup_window_properties_def restore_position_def
      setup_layout_def set_cookies_def set_font_and_background_def apply_styles_def
      set_size_and_dragging_def start_refresh_def new_app_def)





lemma items_of_reads:
  "items_of env sec ks = Ok r \<Longrightarrow> k \<in> set ks \<Longrightarrow> \<exists>x. section_getitem env sec k = Ok x"
  by (induction ks arbitrary: r) (auto simp: bind_Ok_iff)

lemma section_items_reads:
  assumes "section_items env sec = Ok r" and "map_of sec k = Some v"
  shows "\<exists>x. before_get env sec k v = Ok x"
proof -
  from assms(2) have "k \<in> set (map fst sec)"
    by (metis map_of_eq_None_iff option.distinct(1) set_map)
  from items_of_reads [OF assms(1) [unfolded section_items_def] this] assms(2)
  show ?thesis by (simp add: section_getitem_def)
qed

lemma section_get_none_reads:
  assumes "section_items env sec = Ok r"
  shows "\<exists>x. section_get_none env sec k = Ok x \<and> (falsy (map_of sec k) \<longrightarrow> falsy x)"
proof (cases "map_of sec k")
  case None
  then show ?thesis by (simp add: section_get_none_def falsy_def)
next
  case (Some v)
  from section_items_reads [OF assms Some] obtain x where "before_get env sec k v = Ok x" ..
  with Some show ?thesis
    by (auto simp: section_get_none_def falsy_def before_get_def)
qed

lemma log_sections_Ok:
  "log_sections env d a w = Ok () \<longleftrightarrow>
     (\<exists>rd ra rw. section_items env d = Ok rd \<and> section_items env a = Ok ra
        \<and> section_items env w = Ok rw)"
  by (auto simp: log_sections_def bind_Ok_iff)

text \<open>
  C4, as the code has it. For a settings file that holds the three sections
  \<^verbatim>\<open>Display\<close>, \<^verbatim>\<open>Auth\<close> and \<^verbatim>\<open>Window\<close> and whose options all interpolate, which the
  three lines that log the sections need: each of \<^verbatim>\<open>ltuid_v2\<close>, \<^verbatim>\<open>ltoken_v2\<close>,
  \<^verbatim>\<open>cookie_token_v2\<close>, \<^verbatim>\<open>account_mid_v2\<close> is read, a missing or empty one is read as
  \<^verbatim>\<open>None\<close> or empty, and when one of them is read so, startup shows the warning and
  exits, before anything of the window is set up and without the window being shown;
  when all four are read as a string that is not empty, the gate passes and startup goes
  on with the check of the two display flags.
\<close>

theorem auth_gate:
  assumes "config_read (settings_file env) ''Display'' = Some display_config"
    and "config_read (settings_file env) ''Auth'' = Some auth_config"
    and "config_read (settings_file env) ''Window'' = Some window_config"
    and "log_sections env display_config auth_config window_config = Ok ()"
  shows "\<exists>ltuid ltoken cookie_token account_mid.
      section_get_none env auth_config ''ltuid_v2'' = Ok ltuid
    \<and> section_get_none env auth_config ''ltoken_v2'' = Ok ltoken
    \<and> section_get_none env auth_config ''cookie_token_v2'' = Ok cookie_token
    \<and> section_get_none env auth_config ''account_mid_v2'' = Ok account_mid
    \<and> (falsy (map_of auth_config ''ltuid_v2'') \<longrightarrow> falsy ltuid)
    \<and> (falsy (map_of auth_config ''ltoken_v2'') \<longrightarrow> falsy ltoken)
    \<and> (falsy (map_of auth_config ''cookie_token_v2'') \<longrightarrow> falsy cookie_token)
    \<and> (falsy (map_of auth_config ''account_mid_v2'') \<longrightarrow> falsy account_mid)
    \<and> (falsy ltuid \<or> falsy ltoken \<or> falsy cookie_token \<or> falsy account_mid
          \<longrightarrow> initUI env = Exit auth_warning \<and> main env = Exit auth_warning)
    \<and> (\<not> (falsy ltuid \<or> falsy ltoken \<or> falsy cookie_token \<or> falsy account_mid)
          \<longrightarrow> check_auth env auth_config = Ok ()
            \<and> initUI env =
                bind (check_exclusive env display_config)
                  (build_window env (config_read (settings_file env)) display_config auth_config
                     window_config))"
proof -
  from assms(4) obtain ra where ra: "section_items env auth_config = Ok ra"
    unfolding log_sections_Ok by blast
  from section_get_none_reads [OF ra] obtain v1 where
    v1: "section_get_none env auth_config ''ltuid_v2'' = Ok v1"
      "falsy (map_of auth_config ''ltuid_v2'') \<longrightarrow> falsy v1" by blast
  from section_get_none_reads [OF ra] obtain v2 where
    v2: "section_get_none env auth_config ''ltoken_v2'' = Ok v2"
      "falsy (map_of auth_config ''ltoken_v2'') \<longrightarrow> falsy v2" by blast
  from section_get_none_reads [OF ra] obtain v3 where
    v3: "section_get_none env auth_config ''cookie_token_v2'' = Ok v3"
      "falsy (map_of auth_config ''cookie_token_v2'') \<longrightarrow> falsy v3" by blast
  from section_get_none_reads [OF ra] obtain v4 where
    v4: "section_get_none env auth_config ''account_mid_v2'' = Ok v4"
      "falsy (map_of auth_config ''account_mid_v2'') \<longrightarrow> falsy v4" by blast
  have gate: "check_auth env auth_config =
      (if falsy v1 \<or> falsy v2 \<or> falsy v3 \<or> falsy v4 then Exit auth_warning else Ok ())"
    by (simp add: check_auth_def v1(1) v2(1) v3(1) v4(1))
  have start: "initUI env =
      bind (check_auth env auth_config) (\<lambda>_.
        bind (check_exclusive env display_config)
          (build_window env (config_read (settings_file env)) display_config auth_config
             window_config))"
    using assms by (simp add: initUI_def Let_def config_getitem_def)
  have "(falsy v1 \<or> falsy v2 \<or> falsy v3 \<or> falsy v4
          \<longrightarrow> initUI env = Exit auth_warning \<and> main env = Exit auth_warning)
    \<and> (\<not> (falsy v1 \<or> falsy v2 \<or> falsy v3 \<or> falsy v4)
          \<longrightarrow> check_auth env auth_config = Ok ()
            \<and> initUI env =
                bind (check_exclusive env display_config)
                  (build_window env (config_read (settings_file env)) display_config auth_config
                     window_config))"
    by (simp add: start gate main_def)
  with v1 v2 v3 v4 show ?thesis by blast
qed

theorem auth_gate_witness:
  "falsy (map_of empty_ltuid_auth ''ltuid_v2'')
   \<and> initUI empty_ltuid_env = Exit auth_warning \<and> main empty_ltuid_env = Exit auth_warning
   \<and> check_auth sample_env sample_auth = Ok ()
   \<and> initUI sample_env =
        bind (check_exclusive sample_env sample_display)
          (build_window sample_env sample_settings sample_display sample_auth sample_window)"
proof -
  have sections: "config_read (settings_file empty_ltuid_env) ''Display'' = Some sample_display"
    "config_read (settings_file empty_ltuid_env) ''Auth'' = Some empty_ltuid_auth"
    "config_read (settings_file empty_ltuid_env) ''Window'' = Some sample_window"
    "config_read (settings_file sample_env) ''Display'' = Some sample_display"
    "config_read (settings_file sample_env) ''Auth'' = Some sample_auth"
    "config_read (settings_file sample_env) ''Window'' = Some sample_window"
    "config_read (settings_file sample_env) = sample_settings"
    by (simp_all add: empty_ltuid_env_def sample_env_def sample_settings_def config_read_def)
  have logged: "log_sections empty_ltuid_env sample_display empty_ltuid_auth sample_window = Ok ()"
    "log_sections sample_env sample_display sample_auth sample_window = Ok ()"
    by (simp_all add: log_sections_def empty_ltuid_auth_def sample_defs cfg_defs)
  have reads: "section_get_none empty_ltuid_env empty_ltuid_auth ''ltuid_v2'' = Ok (Some [])"
    "section_get_none sample_env sample_auth ''ltuid_v2'' = Ok (Some ''12345'')"
    "section_get_none sample_env sample_auth ''ltoken_v2'' = Ok (Some ''v2_token'')"
    "section_get_none sample_env sample_auth ''cookie_token_v2'' = Ok (Some ''v2_cookie'')"
    "section_get_none sample_env sample_auth ''account_mid_v2'' = Ok (Some ''mid'')"
    by (simp_all add: empty_ltuid_auth_def sample_defs cfg_defs)
  have empty: "falsy (map_of empty_ltuid_auth ''ltuid_v2'')"
    by (simp add: empty_ltuid_auth_def falsy_def)
  from auth_gate [OF sections(1-3) logged(1)] reads(1)
  have exits: "initUI empty_ltuid_env = Exit auth_warning \<and> main empty_ltuid_env = Exit auth_warning"
    by (auto simp: falsy_def)
  from auth_gate [OF sections(4-6) logged(2)] reads(2-5)
  have passes: "check_auth sample_env sample_auth = Ok ()
   \<and> initUI sample_env =
        bind (check_exclusive sample_env sample_display)
          (build_window sample_env sample_settings sample_display sample_auth sample_window)"
    by (auto simp: falsy_def sections(7))
  from empty exits passes show ?thesis by (intro conjI) simp_all
qed

text \<open>
  C4, as the claim states it, fails when a section is missing: with no \<^verbatim>\<open>settings.ini\<close>
  at all every credential is missing, and startup ends in the \<^verbatim>\<open>KeyError\<close> of
  \<^verbatim>\<open>self.config['Display']\<close> (line 60), with no warning shown. It fails as well with an
  empty \<^verbatim>\<open>ltuid_v2\<close> and a stray \<^verbatim>\<open>%\<close> in an option of some section: line 64 raises
  before the gate is reached.
\<close>

theorem auth_gate_counterexample:
  "option_of (config_read (settings_file missing_file_env)) ''Auth'' ''ltuid_v2'' = None
   \<and> initUI missing_file_env = Raise (KeyError ''Display'')
   \<and> main missing_file_env = Raise (KeyError ''Display'')
   \<and> option_of (config_read (settings_file stray_percent_empty_ltuid_env)) ''Auth'' ''ltuid_v2''
       = Some []
   \<and> initUI stray_percent_empty_ltuid_env = Raise (InterpolationError ''font_color'')
   \<and> main stray_percent_empty_ltuid_env = Raise (InterpolationError ''font_color'')"
  by (simp add: missing_file_env_def stray_percent_empty_ltuid_env_def
      stray_percent_display_def conflict_display_def empty_ltuid_auth_def sample_defs
      option_of_def initUI_def main_def log_sections_def cfg_defs)

text \<open>
  C3, as the code has it. For a settings file that holds the three sections, whose
  options all interpolate, that passes the check for auth details and defines both
  \<^verbatim>\<open>word_wrap\<close> and \<^verbatim>\<open>fit_window_to_text\<close>: when both flags are read as \<^verbatim>\<open>1\<close>, startup
  shows the conflict warning and exits; when at most one of them is read as \<^verbatim>\<open>1\<close>, the
  check passes and startup goes on to set up the window. A flag that is defined is read,
  and a stored value without \<^verbatim>\<open>%\<close> is read as it is stored.
\<close>

theorem exclusivity_gate:
  assumes "config_read (settings_file env) ''Display'' = Some display_config"
    and "config_read (settings_file env) ''Auth'' = Some auth_config"
    and "config_read (settings_file env) ''Window'' = Some window_config"
    and "log_sections env display_config auth_config window_config = Ok ()"
    and "check_auth env auth_config = Ok ()"
    and "map_of display_config ''word_wrap'' = Some stored_ww"
    and "map_of display_config ''fit_window_to_text'' = Some stored_fw"
  shows "\<exists>ww fw. section_getitem env display_config ''word_wrap'' = Ok ww
      \<and> section_getitem env display_config ''fit_window_to_text'' = Ok fw
      \<and> (CHR ''%'' \<notin> set stored_ww \<longrightarrow> ww = stored_ww)
      \<and> (CHR ''%'' \<notin> set stored_fw \<longrightarrow> fw = stored_fw)
      \<and> (ww = ''1'' \<and> fw = ''1''
          \<longrightarrow> initUI env = Exit conflict_warning \<and> main env = Exit conflict_warning)
      \<and> (\<not> (ww = ''1'' \<and> fw = ''1'')
          \<longrightarrow> check_exclusive env display_config = Ok (ww = ''1'', fw = ''1'')
            \<and> initUI env =
                build_window env (config_read (settings_file env)) display_config auth_config
                  window_config (ww = ''1'', fw = ''1''))"
proof -
  from assms(4) obtain rd where rd: "section_items env display_config = Ok rd"
    unfolding log_sections_Ok by blast
  from section_items_reads [OF rd assms(6)] obtain ww where
    ww: "before_get env display_config ''word_wrap'' stored_ww = Ok ww" ..
  from section_items_reads [OF rd assms(7)] obtain fw where
    fw: "before_get env display_config ''fit_window_to_text'' stored_fw = Ok fw" ..
  have reads: "section_getitem env display_config ''word_wrap'' = Ok ww"
    "section_getitem env display_config ''fit_window_to_text'' = Ok fw"
    using assms(6,7) ww fw by (simp_all add: section_getitem_def)
  have plain: "CHR ''%'' \<notin> set stored_ww \<longrightarrow> ww = stored_ww"
    "CHR ''%'' \<notin> set stored_fw \<longrightarrow> fw = stored_fw"
    using ww fw by (auto simp: before_get_def)
  have "(ww = ''1'' \<and> fw = ''1''
          \<longrightarrow> initUI env = Exit conflict_warning \<and> main env = Exit conflict_warning)
      \<and> (\<not> (ww = ''1'' \<and> fw = ''1'')
          \<longrightarrow> check_exclusive env display_config = Ok (ww = ''1'', fw = ''1'')
            \<and> initUI env =
                build_window env (config_read (settings_file env)) display_config auth_config
                  window_config (ww = ''1'', fw = ''1''))"
    using assms(1-5) reads
    by (auto simp: initUI_def main_def Let_def config_getitem_def check_exclusive_def
        bool_from_str_def)
  with reads plain show ?thesis by blast
qed

theorem exclusivity_gate_witness:
  "initUI conflict_env = Exit conflict_warning \<and> main conflict_env = Exit conflict_warning
   \<and> check_exclusive sample_env sample_display = Ok (False, True)
   \<and> initUI sample_env =
        build_window sample_env sample_settings sample_display sample_auth sample_window
          (False, True)"
proof -
  have sections: "config_read (settings_file conflict_env) ''Display'' = Some conflict_display"
    "config_read (settings_file conflict_env) ''Auth'' = Some sample_auth"
    "config_read (settings_file conflict_env) ''Window'' = Some sample_window"
    "config_read (settings_file sample_env) ''Display'' = Some sample_display"
    "config_read (settings_file sample_env) ''Auth'' = Some sample_auth"
    "config_read (settings_file sample_env) ''Window'' = Some sample_window"
    "config_read (settings_file sample_env) = sample_settings"
    by (simp_all add: conflict_env_def sample_env_def sample_settings_def config_read_def)
  have logged: "log_sections conflict_env conflict_display sample_auth sample_window = Ok ()"
    "log_sections sample_env sample_display sample_auth sample_window = Ok ()"
    by (simp_all add: log_sections_def conflict_display_def sample_defs cfg_defs)
  have auth: "check_auth conflict_env sample_auth = Ok ()"
    "check_auth sample_env sample_auth = Ok ()"
    by (simp_all add: check_auth_def falsy_def sample_defs cfg_defs)
  have stored: "map_of conflict_display ''word_wrap'' = Some ''1''"
    "map_of conflict_display ''fit_window_to_text'' = Some ''1''"
    "map_of sample_display ''word_wrap'' = Some ''0''"
    "map_of sample_display ''fit_window_to_text'' = Some ''1''"
    by (simp_all add: conflict_display_def sample_display_def)
  from exclusivity_gate [OF sections(1-3) logged(1) auth(1) stored(1,2)]
  have exits: "initUI conflict_env = Exit conflict_warning \<and> main conflict_env = Exit conflict_warning"
    by auto
  from exclusivity_gate [OF sections(4-6) logged(2) auth(2) stored(3,4)]
  have passes: "check_exclusive sample_env sample_display = Ok (False, True)
   \<and> initUI sample_env =
        build_window sample_env sample_settings sample_display sample_auth sample_window
          (False, True)"
    by (auto simp: sections(7))
  from exits passes show ?thesis by simp
qed

text \<open>
  C3, as the claim states it, fails in three places. With both flags \<^verbatim>\<open>1\<close> and an empty
  \<^verbatim>\<open>ltuid_v2\<close>, the check for auth details comes first: startup exits with the auth
  warning and the conflict warning is never shown. With \<^verbatim>\<open>word_wrap\<close> absent, at most one
  flag is \<^verbatim>\<open>1\<close>, and \<^verbatim>\<open>display_config['word_wrap']\<close> (line 78) raises \<^verbatim>\<open>KeyError\<close>. With
  both flags \<^verbatim>\<open>1\<close> and a stray \<^verbatim>\<open>%\<close> in \<^verbatim>\<open>font_color\<close>, line 64 raises before any check.
\<close>

theorem exclusivity_gate_counterexample:
  "option_of (config_read (settings_file conflict_empty_ltuid_env)) ''Display'' ''word_wrap''
     = Some ''1''
   \<and> option_of (config_read (settings_file conflict_empty_ltuid_env)) ''Display''
       ''fit_window_to_text'' = Some ''1''
   \<and> initUI conflict_empty_ltuid_env = Exit auth_warning
   \<and> initUI conflict_empty_ltuid_env \<noteq> Exit conflict_warning
   \<and> option_of (config_read (settings_file no_word_wrap_env)) ''Display'' ''word_wrap'' = None
   \<and> initUI no_word_wrap_env = Raise (KeyError ''word_wrap'')
   \<and> option_of (config_read (settings_file stray_percent_conflict_env)) ''Display'' ''word_wrap''
       = Some ''1''
   \<and> option_of (config_read (settings_file stray_percent_conflict_env)) ''Display''
       ''fit_window_to_text'' = Some ''1''
   \<and> initUI stray_percent_conflict_env = Raise (InterpolationError ''font_color'')"
  by (simp add: conflict_empty_ltuid_env_def no_word_wrap_env_def stray_percent_conflict_env_def
      stray_percent_display_def conflict_display_def empty_ltuid_auth_def sample_defs
      option_of_def initUI_def Let_def log_sections_def cfg_defs check_auth_def falsy_def
      check_exclusive_def auth_warning_def conflict_warning_def)

end
